theory Spec2Isabelle
  imports Complex_Main
begin

section \<open>Strings and numbers of the price fetcher\<close>

text \<open>
  The server (\<^verbatim>\<open>src/app/server.js\<close>) handles strings and JavaScript numbers.
  A string is a \<^typ>\<open>string\<close>: one \<^typ>\<open>char\<close> per code unit. The embedding is exact on
  ASCII code units (below 128), where \<^verbatim>\<open>toUpperCase\<close>, \<^verbatim>\<open>toLowerCase\<close>, \<^verbatim>\<open>trim\<close> and
  the class \<^verbatim>\<open>\s\<close> are the functions below; other code units are kept as they are.
  A finite number is a \<^typ>\<open>rat\<close> (the rounding of doubles is not modelled); where the
  source can produce \<^verbatim>\<open>NaN\<close> or an infinity the type is \<^typ>\<open>rat option\<close> and \<open>None\<close>
  stands for a value that is not a finite number.
\<close>

definition is_lower :: "char \<Rightarrow> bool" where
  "is_lower c = (97 \<le> (of_char c :: nat) \<and> (of_char c :: nat) \<le> 122)"

definition is_upper :: "char \<Rightarrow> bool" where
  "is_upper c = (65 \<le> (of_char c :: nat) \<and> (of_char c :: nat) \<le> 90)"

definition upper_char :: "char \<Rightarrow> char" where
  "upper_char c = (if is_lower c then char_of ((of_char c :: nat) - 32) else c)"

definition lower_char :: "char \<Rightarrow> char" where
  "lower_char c = (if is_upper c then char_of ((of_char c :: nat) + 32) else c)"

definition toUpperCase :: "string \<Rightarrow> string" where
  "toUpperCase s = map upper_char s"

definition toLowerCase :: "string \<Rightarrow> string" where
  "toLowerCase s = map lower_char s"

text \<open>The class \<^verbatim>\<open>\s\<close>, which is also what \<^verbatim>\<open>trim\<close> strips: tab, line feed, vertical
  tab, form feed, carriage return and space.\<close>

definition is_space :: "char \<Rightarrow> bool" where
  "is_space c = ((of_char c :: nat) \<in> {9, 10, 11, 12, 13, 32})"

text \<open>The class \<^verbatim>\<open>[,\s]\<close> of the separator expression.\<close>

definition is_sep :: "char \<Rightarrow> bool" where
  "is_sep c = (c = CHR '','' \<or> is_space c)"

definition trim :: "string \<Rightarrow> string" where
  "trim s = rev (dropWhile is_space (rev (dropWhile is_space s)))"

text \<open>
  \<^verbatim>\<open>symbols.split(/[,\s]+/)\<close>. The split of the language walks the string: where the
  expression does not match, the position moves on by one; where it matches, the match
  is the whole run of separators (\<^verbatim>\<open>+\<close> is greedy), the piece before it is pushed and
  the walk goes on after the run. The rest of the string is the last piece, so a
  string that starts or ends with a separator has an empty first or last piece.
\<close>

function split_sep :: "string \<Rightarrow> string list" where
  "split_sep s =
     (let piece = takeWhile (\<lambda>c. \<not> is_sep c) s;
          rest = dropWhile (\<lambda>c. \<not> is_sep c) s
      in if rest = [] then [piece]
         else piece # split_sep (dropWhile is_sep rest))"
  by pat_completeness auto
termination
proof (relation "measure length")
  show "wf (measure length)" by simp
next
  fix s :: string and piece rest
  assume r: "rest = dropWhile (\<lambda>c. \<not> is_sep c) s" and ne: "rest \<noteq> []"
  from ne obtain c cs where rc: "rest = c # cs" by (cases rest) auto
  from r rc have "dropWhile (\<lambda>c. \<not> is_sep c) s = c # cs" by simp
  then have "is_sep c" by (simp only: dropWhile_eq_Cons_conv not_not)
  with rc have "length (dropWhile is_sep rest) \<le> length cs"
    by (simp add: length_dropWhile_le)
  moreover have "length rest \<le> length s"
    unfolding r by (rule length_dropWhile_le)
  ultimately show "(dropWhile is_sep rest, s) \<in> measure length"
    using rc by simp
qed

declare split_sep.simps [simp del]

text \<open>Line 93: \<^verbatim>\<open>symbols.split(/[,\s]+/).map(s => s.trim().toUpperCase()).filter(s => s.length > 0)\<close>.\<close>

definition symbolList_of :: "string \<Rightarrow> string list" where
  "symbolList_of syms =
     filter (\<lambda>s. length s > 0) (map (\<lambda>s. toUpperCase (trim s)) (split_sep syms))"

text \<open>
  \<^verbatim>\<open>parseFloat(x.toFixed(2))\<close> on a finite number: below \<open>10\<^sup>2\<^sup>1\<close> in magnitude the
  number is rounded to the nearest hundredth, a tie going away from zero (the sign is
  split off first and the larger of two candidates is taken); from \<open>10\<^sup>2\<^sup>1\<close> on
  \<^verbatim>\<open>toFixed\<close> prints the number itself.
\<close>

definition toFixed2 :: "rat \<Rightarrow> rat" where
  "toFixed2 x =
     (if \<bar>x\<bar> \<ge> 10 ^ 21 then x
      else if x < 0 then - (of_int \<lfloor>(- x) * 100 + 1 / 2\<rfloor> / 100)
      else of_int \<lfloor>x * 100 + 1 / 2\<rfloor> / 100)"

text \<open>The decimal digits of a number, for \<^verbatim>\<open>`HTTP error: ${response.status}`\<close>.\<close>

fun show_nat :: "nat \<Rightarrow> string" where
  "show_nat n =
     (if n < 10 then [char_of (48 + n)]
      else show_nat (n div 10) @ [char_of (48 + n mod 10)])"

declare show_nat.simps [simp del]

section \<open>Data model\<close>

text \<open>The object a price fetch returns. A \<open>None\<close> in a number field is what the JSON
  body shows as \<^verbatim>\<open>null\<close>: the \<^verbatim>\<open>null\<close> of the source, or a number that is not finite.\<close>

record quote =
  symbol :: string
  price :: "rat option"
  currency :: string
  timestamp :: nat
  source :: string
  change_24h :: "rat option"
  change_percent_24h :: "rat option"

text \<open>The \<^verbatim>\<open>meta\<close> object of the upstream reply; \<open>None\<close> is \<^verbatim>\<open>undefined\<close> or \<^verbatim>\<open>null\<close>.\<close>

record yahoo_meta =
  regularMarketPrice :: "rat option"
  meta_currency :: "string option"
  regularMarketChange :: "rat option"
  regularMarketChangePercent :: "rat option"

text \<open>
  The body of an upstream reply, as far as \<^verbatim>\<open>fetchYahooPrice\<close> looks at it:
  \<open>Chart None\<close> when \<^verbatim>\<open>data.chart?.result?.[0]\<close> is falsy, \<open>Chart (Some None)\<close> when its
  \<^verbatim>\<open>meta\<close> is falsy, and \<open>Throws msg\<close> for a body on which one of the property reads or
  method calls of the function throws (a \<^verbatim>\<open>null\<close> body, a price that is not a number),
  with the message of the error thrown.
\<close>

datatype yahoo_data = Throws string | Chart "yahoo_meta option option"

text \<open>What \<^verbatim>\<open>await axios.get(url, ...)\<close> gives: a rejection with a message (network
  error, the 5000 ms timeout, a status the client refuses) or a response.\<close>

datatype axios_outcome = AxiosRejected string | AxiosResponse nat yahoo_data

text \<open>
  The world outside the handlers: \<open>random env k\<close> is what the \<open>k\<close>-th call of
  \<^verbatim>\<open>Math.random()\<close> returns, \<open>date_now env i\<close> what \<^verbatim>\<open>Date.now()\<close> returns to the \<open>i\<close>-th
  price fetch, \<open>axios_get env i url\<close> the outcome of the \<open>i\<close>-th fetch's request.
\<close>

record env =
  random :: "nat \<Rightarrow> rat"
  date_now :: "nat \<Rightarrow> nat"
  axios_get :: "nat \<Rightarrow> string \<Rightarrow> axios_outcome"

text \<open>What the handlers change: the number of \<^verbatim>\<open>Math.random()\<close> calls made so far and
  the symbols \<^verbatim>\<open>fetchPrice\<close> has been called with, in call order.\<close>

record world =
  draws :: nat
  fetches :: "string list"

record stock_group =
  name :: string
  symbols :: "string list"
  description :: string

text \<open>A settled promise of line 97 holds a quote or the object
  \<^verbatim>\<open>{ symbol, error: error.message }\<close> of the \<^verbatim>\<open>catch\<close> handler.\<close>

datatype jsvalue = QuoteV quote | ErrObj string string

datatype settled = Fulfilled jsvalue | Rejected string

text \<open>The body of line 121; \<open>errors = None\<close> is \<^verbatim>\<open>undefined\<close>, a field that
  \<^verbatim>\<open>res.json\<close> leaves out.\<close>

record aggregate =
  success :: bool
  prices :: "jsvalue list"
  errors :: "string list option"
  total_requested :: nat
  total_successful :: nat
  total_failed :: nat

datatype body =
    QuoteBody quote
  | ErrorBody string string
  | AggregateBody aggregate
  | GroupsBody "(string \<times> stock_group) list"

record response =
  status :: nat
  body :: body

text \<open>
  A value of \<^verbatim>\<open>req.query\<close>. The query parser gives a string for \<^verbatim>\<open>?symbols=AAPL,TSLA\<close>, an
  array for a repeated parameter (\<^verbatim>\<open>?symbols=AAPL&symbols=TSLA\<close>) and an object for
  \<^verbatim>\<open>?symbols[a]=AAPL\<close>.
\<close>

datatype query_value =
    QString string
  | QArray "query_value list"
  | QObject "(string \<times> query_value) list"

text \<open>A request: the route parameter \<^verbatim>\<open>req.params.symbol\<close> and the query parameters
  \<^verbatim>\<open>req.query.symbols\<close> and \<^verbatim>\<open>req.query.source\<close>, \<open>None\<close> when absent. The source is taken
  as a string.\<close>

record request =
  params_symbol :: string
  query_symbols :: "query_value option"
  query_source :: "string option"

section \<open>Price sources\<close>

subsection \<open>The mock generator, lines 192 to 227\<close>

definition basePrices :: "(string \<times> rat) list" where
  "basePrices =
     [(''AAPL'', 150), (''TSLA'', 200), (''MSFT'', 300), (''GOOGL'', 2500),
      (''AMZN'', 3000), (''NVDA'', 400), (''META'', 250), (''NFLX'', 400),
      (''JPM'', 150), (''BAC'', 30), (''WFC'', 40), (''GS'', 350)]"

text \<open>
  \<^verbatim>\<open>basePrices\<close> is an object literal, so a read of a key it does not own goes on to
  \<^verbatim>\<open>Object.prototype\<close>, whose properties are functions (and, for \<^verbatim>\<open>__proto__\<close>, an
  object): values that are truthy and are not numbers.
\<close>

definition object_prototype_keys :: "string list" where
  "object_prototype_keys =
     [''constructor'', ''__defineGetter__'', ''__defineSetter__'', ''hasOwnProperty'',
      ''__lookupGetter__'', ''__lookupSetter__'', ''isPrototypeOf'',
      ''propertyIsEnumerable'', ''toString'', ''valueOf'', ''__proto__'',
      ''toLocaleString'']"

datatype property = Own rat | Inherited | Undefined

definition basePrices_get :: "string \<Rightarrow> property" where
  "basePrices_get key =
     (case map_of basePrices key of
        Some v \<Rightarrow> Own v
      | None \<Rightarrow> if key \<in> set object_prototype_keys then Inherited else Undefined)"

text \<open>\<^verbatim>\<open>basePrices[symbol] || (100.0 + (symbol.length * 10))\<close>; \<open>None\<close> is a value that is
  not a number, which the arithmetic after it turns into \<^verbatim>\<open>NaN\<close>.\<close>

definition mock_basePrice :: "string \<Rightarrow> rat option" where
  "mock_basePrice symb =
     (case basePrices_get symb of
        Own v \<Rightarrow> if v \<noteq> 0 then Some v else Some (100 + of_nat (length symb) * 10)
      | Inherited \<Rightarrow> None
      | Undefined \<Rightarrow> Some (100 + of_nat (length symb) * 10))"

text \<open>\<open>i\<close> is the number of the fetch, for the clock. The two calls of
  \<^verbatim>\<open>Math.random()\<close> are the next two draws.\<close>

definition fetchMockPrice :: "env \<Rightarrow> nat \<Rightarrow> world \<Rightarrow> string \<Rightarrow> (string + quote) \<times> world" where
  "fetchMockPrice env i w symb =
     (let basePrice = mock_basePrice symb;
          variation = (random env (draws w) - 1 / 2) * (1 / 10);
          price_raw = map_option (\<lambda>b. b * (1 + variation)) basePrice;
          change24h = (random env (draws w + 1) - 1 / 2) * 10;
          changePercent24h =
            (case price_raw of
               None \<Rightarrow> None
             | Some p \<Rightarrow> if p = 0 then None else Some (change24h / p * 100))
      in (Inr \<lparr>symbol = symb,
                price = map_option toFixed2 price_raw,
                currency = ''USD'',
                timestamp = date_now env i div 1000,
                source = ''mock'',
                change_24h = Some (toFixed2 change24h),
                change_percent_24h = map_option toFixed2 changePercent24h\<rparr>,
          w\<lparr>draws := draws w + 2\<rparr>))"

subsection \<open>The upstream client, lines 145 to 189\<close>

text \<open>\<^verbatim>\<open>x || d\<close> on a string that may be missing, and \<^verbatim>\<open>x ? parseFloat(x.toFixed(2)) : null\<close>
  on a number that may be missing.\<close>

definition or_default :: "string option \<Rightarrow> string \<Rightarrow> string" where
  "or_default x d = (case x of None \<Rightarrow> d | Some s \<Rightarrow> if s = [] then d else s)"

definition fixed_or_null :: "rat option \<Rightarrow> rat option" where
  "fixed_or_null x = (case x of None \<Rightarrow> None | Some v \<Rightarrow> if v = 0 then None else Some (toFixed2 v))"

text \<open>The body of the \<^verbatim>\<open>try\<close> block: \<open>Inl msg\<close> is an error thrown with message \<open>msg\<close>.\<close>

definition yahoo_try :: "env \<Rightarrow> nat \<Rightarrow> string \<Rightarrow> string + quote" where
  "yahoo_try env i symb =
     (case axios_get env i (''https://query1.finance.yahoo.com/v8/finance/chart/'' @ symb) of
        AxiosRejected msg \<Rightarrow> Inl msg
      | AxiosResponse st data \<Rightarrow>
          if st \<noteq> 200 then Inl (''HTTP error: '' @ show_nat st)
          else (case data of
                  Throws msg \<Rightarrow> Inl msg
                | Chart None \<Rightarrow> Inl ''Invalid response format''
                | Chart (Some None) \<Rightarrow> Inl ''Missing meta data''
                | Chart (Some (Some meta)) \<Rightarrow>
                    (case regularMarketPrice meta of
                       None \<Rightarrow> Inl ''Missing price data''
                     | Some p \<Rightarrow>
                         Inr \<lparr>symbol = symb,
                              price = Some (toFixed2 p),
                              currency = or_default (meta_currency meta) ''USD'',
                              timestamp = date_now env i div 1000,
                              source = ''yahoo'',
                              change_24h = fixed_or_null (regularMarketChange meta),
                              change_percent_24h =
                                fixed_or_null (regularMarketChangePercent meta)\<rparr>)))"

text \<open>The \<^verbatim>\<open>catch\<close> block rethrows with a prefix.\<close>

definition fetchYahooPrice :: "env \<Rightarrow> nat \<Rightarrow> string \<Rightarrow> string + quote" where
  "fetchYahooPrice env i symb =
     (case yahoo_try env i symb of
        Inl msg \<Rightarrow> Inl (''Yahoo API error: '' @ msg)
      | Inr q \<Rightarrow> Inr q)"

subsection \<open>The selector, lines 132 to 142\<close>

definition fetchPrice :: "env \<Rightarrow> world \<Rightarrow> string \<Rightarrow> string \<Rightarrow> (string + quote) \<times> world" where
  "fetchPrice env w symb src =
     (let i = length (fetches w);
          w1 = w\<lparr>fetches := fetches w @ [symb]\<rparr>
      in if toLowerCase src = ''yahoo'' then (fetchYahooPrice env i symb, w1)
         else if toLowerCase src = ''mock'' then fetchMockPrice env i w1 symb
         else fetchMockPrice env i w1 symb)"

section \<open>Route handlers\<close>

subsection \<open>\<^verbatim>\<open>GET /groups\<close>, lines 23 to 58\<close>

definition groups :: "(string \<times> stock_group) list" where
  "groups =
     [(''tech'', \<lparr>name = ''Tech Giants'',
         symbols = [''AAPL'', ''MSFT'', ''GOOGL'', ''META'', ''NVDA'', ''NFLX'', ''AMZN'', ''TSLA''],
         description = ''Major technology companies''\<rparr>),
      (''finance'', \<lparr>name = ''Financial Sector'',
         symbols = [''JPM'', ''BAC'', ''WFC'', ''GS'', ''MS'', ''C'', ''AXP'', ''V''],
         description = ''Banking and financial services''\<rparr>),
      (''healthcare'', \<lparr>name = ''Healthcare'',
         symbols = [''JNJ'', ''PFE'', ''UNH'', ''ABBV'', ''MRK'', ''TMO'', ''ABT'', ''LLY''],
         description = ''Pharmaceutical and healthcare companies''\<rparr>),
      (''energy'', \<lparr>name = ''Energy Sector'',
         symbols = [''XOM'', ''CVX'', ''COP'', ''EOG'', ''SLB'', ''KMI'', ''PSX'', ''VLO''],
         description = ''Oil, gas, and energy companies''\<rparr>),
      (''retail'', \<lparr>name = ''Retail & Consumer'',
         symbols = [''WMT'', ''TGT'', ''COST'', ''HD'', ''LOW'', ''NKE'', ''SBUX'', ''MCD''],
         description = ''Retail and consumer goods''\<rparr>),
      (''crypto'', \<lparr>name = ''Crypto-Related'',
         symbols = [''COIN'', ''MSTR'', ''RIOT'', ''MARA'', ''HUT'', ''BITF'', ''CAN'', ''HIVE''],
         description = ''Cryptocurrency and blockchain companies''\<rparr>)]"

definition groups_handler :: "env \<Rightarrow> request \<Rightarrow> world \<Rightarrow> response \<times> world" where
  "groups_handler env req w = (\<lparr>status = 200, body = GroupsBody groups\<rparr>, w)"

subsection \<open>\<^verbatim>\<open>GET /price/:symbol\<close>, lines 61 to 78\<close>

definition price_handler :: "env \<Rightarrow> request \<Rightarrow> world \<Rightarrow> response \<times> world" where
  "price_handler env req w =
     (let symb = toUpperCase (params_symbol req);
          src = or_default (query_source req) ''yahoo''
      in case fetchPrice env w symb src of
           (Inr priceData, w1) \<Rightarrow> (\<lparr>status = 200, body = QuoteBody priceData\<rparr>, w1)
         | (Inl message, w1) \<Rightarrow>
             (\<lparr>status = 400,
               body = ErrorBody ''PRICE_FETCH_FAILED''
                        (''Failed to fetch price for '' @ symb @ '': '' @ message)\<rparr>, w1))"

subsection \<open>\<^verbatim>\<open>GET /prices\<close>, lines 81 to 129\<close>

definition missing_symbols_message :: string where
  "missing_symbols_message =
     ''Missing 'symbols' parameter. Use comma or space-separated values like: '' @
     ''?symbols=AAPL,TSLA,MSFT or ?symbols=AAPL TSLA MSFT''"

text \<open>Line 97: \<^verbatim>\<open>symbolList.map(symbol => fetchPrice(symbol, source)...)\<close> calls
  \<^verbatim>\<open>fetchPrice\<close> once for each element, in order.\<close>

fun fetch_all :: "env \<Rightarrow> string \<Rightarrow> string list \<Rightarrow> world \<Rightarrow> (string + quote) list \<times> world" where
  "fetch_all env src [] w = ([], w)"
| "fetch_all env src (symb # rest) w =
     (case fetchPrice env w symb src of
        (r, w1) \<Rightarrow> (case fetch_all env src rest w1 of (rs, w2) \<Rightarrow> (r # rs, w2)))"

text \<open>\<^verbatim>\<open>.catch(error => ({ symbol, error: error.message }))\<close>: the promise of a fetch that
  fails is fulfilled with the error object, so \<^verbatim>\<open>Promise.allSettled\<close> sees no rejection.\<close>

definition with_catch :: "string \<Rightarrow> string + quote \<Rightarrow> settled" where
  "with_catch symb r =
     (case r of Inl message \<Rightarrow> Fulfilled (ErrObj symb message) | Inr q \<Rightarrow> Fulfilled (QuoteV q))"

text \<open>\<^verbatim>\<open>symbolList[index]\<close> in a template string.\<close>

definition at_index :: "string list \<Rightarrow> nat \<Rightarrow> string" where
  "at_index xs i = (if i < length xs then xs ! i else ''undefined'')"

text \<open>The template string \<^verbatim>\<open>`${symbolList[index]}: ${message}`\<close> of lines 112 and 117.\<close>

definition error_line :: "string \<Rightarrow> string \<Rightarrow> string" where
  "error_line s message = s @ '': '' @ message"

text \<open>The \<^verbatim>\<open>forEach\<close> of line 109, with the two arrays it pushes to. The test
  \<^verbatim>\<open>result.value.error\<close> is one of truthiness: an error object whose message is the
  empty string goes to \<^verbatim>\<open>prices\<close>.\<close>

fun classify ::
  "string list \<Rightarrow> settled list \<Rightarrow> nat \<Rightarrow> jsvalue list \<times> string list \<Rightarrow> jsvalue list \<times> string list"
where
  "classify symbolList [] index acc = acc"
| "classify symbolList (result # rest) index (ps, es) =
     classify symbolList rest (Suc index)
       (case result of
          Fulfilled (QuoteV q) \<Rightarrow> (ps @ [QuoteV q], es)
        | Fulfilled (ErrObj symb message) \<Rightarrow>
            if message \<noteq> [] then (ps, es @ [error_line (at_index symbolList index) message])
            else (ps @ [ErrObj symb message], es)
        | Rejected message \<Rightarrow> (ps, es @ [error_line (at_index symbolList index) message]))"

text \<open>
  The handler is \<^verbatim>\<open>async\<close> and has no \<^verbatim>\<open>try\<close>: \<open>Inr\<close> is the response it sends, \<open>Inl msg\<close>
  an error thrown with message \<open>msg\<close>, after which the handler sends nothing. The test
  \<^verbatim>\<open>!symbols\<close> of line 85 holds for a missing parameter and for the empty string; an
  array or an object is truthy and has no method \<^verbatim>\<open>split\<close>, so line 93 throws a
  \<^verbatim>\<open>TypeError\<close>.
\<close>

definition prices_handler ::
  "env \<Rightarrow> request \<Rightarrow> world \<Rightarrow> (string + response) \<times> world" where
  "prices_handler env req w =
     (let src = or_default (query_source req) ''yahoo''
      in case query_symbols req of
           None \<Rightarrow>
             (Inr \<lparr>status = 400, body = ErrorBody ''MISSING_SYMBOLS'' missing_symbols_message\<rparr>, w)
         | Some (QString syms) \<Rightarrow>
             if syms = [] then
               (Inr \<lparr>status = 400, body = ErrorBody ''MISSING_SYMBOLS'' missing_symbols_message\<rparr>,
                w)
             else
               (let symbolList = symbolList_of syms
                in case fetch_all env src symbolList w of
                     (outcomes, w1) \<Rightarrow>
                       (let results = map2 with_catch symbolList outcomes;
                            (ps, es) = classify symbolList results 0 ([], [])
                        in (Inr \<lparr>status = 200,
                             body = AggregateBody
                               \<lparr>success = (length ps > 0),
                                prices = ps,
                                errors = (if length es > 0 then Some es else None),
                                total_requested = length symbolList,
                                total_successful = length ps,
                                total_failed = length es\<rparr>\<rparr>, w1)))
         | Some (QArray vs) \<Rightarrow> (Inl ''symbols.split is not a function'', w)
         | Some (QObject kvs) \<Rightarrow> (Inl ''symbols.split is not a function'', w))"

text \<open>The \<^verbatim>\<open>errors\<close> field of the body a handler sends, \<open>None\<close> when the body has none or
  nothing is sent.\<close>

definition errors_field :: "string + response \<Rightarrow> string list option" where
  "errors_field r =
     (case r of
        Inl msg \<Rightarrow> None
      | Inr resp \<Rightarrow> (case body resp of AggregateBody agg \<Rightarrow> errors agg | _ \<Rightarrow> None))"

text \<open>A world for examples: \<^verbatim>\<open>Math.random()\<close> returns 1/2, the request of the first
  fetch times out and every later one is answered with a price of 150.255.\<close>

definition env0 :: env where
  "env0 = \<lparr>random = (\<lambda>k. 1 / 2), date_now = (\<lambda>i. 5000),
           axios_get = (\<lambda>i url.
             if i = 0 then AxiosRejected ''timeout of 5000ms exceeded''
             else AxiosResponse 200 (Chart (Some (Some
               \<lparr>regularMarketPrice = Some (30051 / 200), meta_currency = None,
                regularMarketChange = Some (43 / 20), regularMarketChangePercent = None\<rparr>))))\<rparr>"

definition world0 :: world where
  "world0 = \<lparr>draws = 0, fetches = []\<rparr>"

definition request0 :: "string option \<Rightarrow> string option \<Rightarrow> request" where
  "request0 syms src =
     \<lparr>params_symbol = ''aapl'', query_symbols = map_option QString syms, query_source = src\<rparr>"

text \<open>The quote of the second fetch of a batch in \<open>env0\<close>, for the symbol \<^verbatim>\<open>TSLA\<close>.\<close>

definition quote_tsla :: quote where
  "quote_tsla = \<lparr>symbol = ''TSLA'', price = Some (7513 / 50), currency = ''USD'',
      timestamp = 5, source = ''yahoo'', change_24h = Some (43 / 20),
      change_percent_24h = None\<rparr>"

text \<open>
  The parsing as the specification words it: the string is split at every comma and
  every whitespace character, each fragment is trimmed and put in upper case, and the
  empty fragments are dropped.
\<close>

fun split_each :: "string \<Rightarrow> string list" where
  "split_each [] = [[]]"
| "split_each (c # cs) =
     (if is_sep c then [] # split_each cs
      else (case split_each cs of [] \<Rightarrow> [[c]] | p # ps \<Rightarrow> (c # p) # ps))"

definition spec_symbolList :: "string \<Rightarrow> string list" where
  "spec_symbolList s = filter (\<lambda>x. x \<noteq> []) (map (\<lambda>x. toUpperCase (trim x)) (split_each s))"

section \<open>What a fetch returns and changes\<close>

lemma fetchMockPrice_Inr: "\<exists>q. fst (fetchMockPrice env i w s) = Inr q"
  by (simp add: fetchMockPrice_def Let_def)

lemma fetchMockPrice_world: "snd (fetchMockPrice env i w s) = w\<lparr>draws := draws w + 2\<rparr>"
  by (simp add: fetchMockPrice_def Let_def)

lemma fetchYahooPrice_message:
  "fetchYahooPrice env i s = Inl m \<Longrightarrow> \<exists>m'. m = ''Yahoo API error: '' @ m'"
  by (auto simp: fetchYahooPrice_def split: sum.splits)

lemma fetchPrice_message: "fst (fetchPrice env w s src) = Inl m \<Longrightarrow> m \<noteq> []"
  using fetchMockPrice_Inr [of env "length (fetches w)" "w\<lparr>fetches := fetches w @ [s]\<rparr>" s]
  by (auto simp: fetchPrice_def Let_def dest!: fetchYahooPrice_message split: if_splits)

lemma fetchPrice_world:
  "snd (fetchPrice env w s src) =
     w\<lparr>draws := draws w + (if toLowerCase src = ''yahoo'' then 0 else 2),
       fetches := fetches w @ [s]\<rparr>"
  by (simp add: fetchPrice_def Let_def fetchMockPrice_world)

lemma fetch_all_Cons:
  "fetch_all env src (x # xs) w =
     (fst (fetchPrice env w x src) # fst (fetch_all env src xs (snd (fetchPrice env w x src))),
      snd (fetch_all env src xs (snd (fetchPrice env w x src))))"
  by (simp split: prod.splits)

lemma fetch_all_length: "length (fst (fetch_all env src xs w)) = length xs"
  by (induction xs arbitrary: w) (simp_all add: fetch_all_Cons del: fetch_all.simps(2))

lemma fetch_all_world:
  "snd (fetch_all env src xs w) =
     w\<lparr>draws := draws w + (if toLowerCase src = ''yahoo'' then 0 else 2 * length xs),
       fetches := fetches w @ xs\<rparr>"
  by (induction xs arbitrary: w)
    (simp_all add: fetch_all_Cons fetchPrice_world del: fetch_all.simps(2))

lemma fetch_all_message:
  "Inl m \<in> set (fst (fetch_all env src xs w)) \<Longrightarrow> m \<noteq> []"
proof (induction xs arbitrary: w)
  case Nil
  then show ?case by simp
next
  case (Cons x xs)
  obtain r w1 where f: "fetchPrice env w x src = (r, w1)" by (cases "fetchPrice env w x src")
  obtain rs w2 where g: "fetch_all env src xs w1 = (rs, w2)" by (cases "fetch_all env src xs w1")
  from Cons.prems f g have "Inl m = r \<or> Inl m \<in> set rs" by simp
  then show ?case
  proof
    assume "Inl m = r"
    with f show ?thesis using fetchPrice_message [of env w x src m] by simp
  next
    assume "Inl m \<in> set rs"
    with g show ?thesis using Cons.IH [of w1] by simp
  qed
qed

section \<open>The classification loop\<close>

lemma drop_eq_Cons_at:
  assumes "drop i sl = x # xs"
  shows "at_index sl i = x" and "drop (Suc i) sl = xs"
proof -
  from assms have lt: "i < length sl" by (cases "i < length sl") auto
  from Cons_nth_drop_Suc [OF lt] assms show "at_index sl i = x" "drop (Suc i) sl = xs"
    by (simp_all add: at_index_def lt)
qed

lemma with_catch_simps:
  "with_catch s (Inl m) = Fulfilled (ErrObj s m)"
  "with_catch s (Inr q) = Fulfilled (QuoteV q)"
  by (simp_all add: with_catch_def)

lemma classify_spec:
  assumes "length rest = length outs"
    and "drop i sl = rest"
    and "\<forall>m. Inl m \<in> set outs \<longrightarrow> m \<noteq> []"
  shows "classify sl (map2 with_catch rest outs) i (ps, es) =
      (ps @ [QuoteV q. Inr q \<leftarrow> outs],
       es @ [error_line s m. (s, Inl m) \<leftarrow> zip rest outs])"
  using assms
proof (induction rest outs arbitrary: i ps es rule: list_induct2)
  case Nil
  show ?case by simp
next
  case (Cons x xs r rs)
  from Cons.prems(1) have at: "at_index sl i = x" and dr: "drop (Suc i) sl = xs"
    by (rule drop_eq_Cons_at)+
  from Cons.prems(2) have tl: "\<forall>m. Inl m \<in> set rs \<longrightarrow> m \<noteq> []" by simp
  show ?case
  proof (cases r)
    case (Inl m)
    with Cons.prems(2) have ne: "m \<noteq> []" by simp
    have "classify sl (map2 with_catch (x # xs) (r # rs)) i (ps, es) =
          classify sl (map2 with_catch xs rs) (Suc i) (ps, es @ [error_line x m])"
      by (simp add: Inl at ne with_catch_simps)
    also note Cons.IH [OF dr tl, of ps "es @ [error_line x m]"]
    finally have eq: "classify sl (map2 with_catch (x # xs) (r # rs)) i (ps, es) =
      (ps @ [QuoteV q. Inr q \<leftarrow> rs],
       (es @ [error_line x m]) @ [error_line s m. (s, Inl m) \<leftarrow> zip xs rs])" .
    show ?thesis unfolding eq by (simp add: Inl)
  next
    case (Inr q)
    have "classify sl (map2 with_catch (x # xs) (r # rs)) i (ps, es) =
          classify sl (map2 with_catch xs rs) (Suc i) (ps @ [QuoteV q], es)"
      by (simp add: Inr with_catch_simps)
    also note Cons.IH [OF dr tl, of "ps @ [QuoteV q]" es]
    finally have eq: "classify sl (map2 with_catch (x # xs) (r # rs)) i (ps, es) =
      ((ps @ [QuoteV q]) @ [QuoteV q. Inr q \<leftarrow> rs],
       es @ [error_line s m. (s, Inl m) \<leftarrow> zip xs rs])" .
    show ?thesis unfolding eq by (simp add: Inr)
  qed
qed

lemma partition_lengths:
  "length sl = length outs \<Longrightarrow>
     length [QuoteV q. Inr q \<leftarrow> outs] + length [error_line x m. (x, Inl m) \<leftarrow> zip sl outs]
       = length outs"
  by (induction sl outs rule: list_induct2) (simp_all split: sum.splits)

lemma prices_handler_parsed:
  assumes "query_symbols req = Some (QString s)" and "s \<noteq> []"
  shows "prices_handler env req w =
     (let sl = symbolList_of s;
          outs = fst (fetch_all env (or_default (query_source req) ''yahoo'') sl w);
          ps = [QuoteV q. Inr q \<leftarrow> outs];
          es = [error_line x m. (x, Inl m) \<leftarrow> zip sl outs]
      in (Inr \<lparr>status = 200,
           body = AggregateBody
             \<lparr>success = (ps \<noteq> []), prices = ps,
              errors = (if es = [] then None else Some es),
              total_requested = length sl,
              total_successful = length ps,
              total_failed = length es\<rparr>\<rparr>,
          snd (fetch_all env (or_default (query_source req) ''yahoo'') sl w)))"
proof -
  define src where "src = or_default (query_source req) ''yahoo''"
  define sl where "sl = symbolList_of s"
  obtain outs w1 where f: "fetch_all env src sl w = (outs, w1)"
    by (cases "fetch_all env src sl w")
  have len: "length sl = length outs"
    using fetch_all_length [of env src sl w] f by simp
  have msg: "\<forall>m. Inl m \<in> set outs \<longrightarrow> m \<noteq> []"
    using fetch_all_message [of _ env src sl w] f by simp
  have c: "classify sl (map2 with_catch sl outs) 0 ([], []) =
      ([QuoteV q. Inr q \<leftarrow> outs], [error_line x m. (x, Inl m) \<leftarrow> zip sl outs])"
    using classify_spec [OF len _ msg, of 0 sl "[]" "[]"] by simp
  show ?thesis
    using assms f c
    by (simp add: prices_handler_def Let_def src_def [symmetric] sl_def [symmetric])
qed

lemma fetch_all_nth:
  "i < length xs \<Longrightarrow>
     fst (fetch_all env src xs w) ! i =
       fst (fetchPrice env
              (w\<lparr>draws := draws w + (if toLowerCase src = ''yahoo'' then 0 else 2 * i),
                 fetches := fetches w @ take i xs\<rparr>) (xs ! i) src)"
proof (induction xs arbitrary: i w)
  case Nil
  then show ?case by simp
next
  case (Cons x xs)
  show ?case
  proof (cases i)
    case 0
    then show ?thesis by (simp add: fetch_all_Cons del: fetch_all.simps(2))
  next
    case (Suc j)
    with Cons.prems have j: "j < length xs" by simp
    show ?thesis
      using Cons.IH [OF j, of "snd (fetchPrice env w x src)"]
      by (simp add: Suc fetch_all_Cons fetchPrice_world del: fetch_all.simps(2))
  qed
qed

lemma failures_nonempty:
  "length sl = length outs \<Longrightarrow> Inl m \<in> set outs \<Longrightarrow>
     [error_line x m. (x, Inl m) \<leftarrow> zip sl outs] \<noteq> []"
  by (induction sl outs rule: list_induct2) (auto split: sum.splits)

lemma failures_empty:
  "length sl = length outs \<Longrightarrow>
     ([error_line x m. (x, Inl m) \<leftarrow> zip sl outs] = []) = (\<forall>r \<in> set outs. \<exists>q. r = Inr q)"
  by (induction sl outs rule: list_induct2) (auto split: sum.splits)

lemma successes_nonempty:
  "Inr q \<in> set outs \<Longrightarrow> [QuoteV q. Inr q \<leftarrow> outs] \<noteq> []"
  by (induction outs) (auto split: sum.splits)

lemma symbolList_of_nonempty: "[] \<notin> set (symbolList_of s)"
  by (simp add: symbolList_of_def)

lemma fetchMockPrice_symbol:
  "fst (fetchMockPrice env i w s) = Inr q \<Longrightarrow> symbol q = s"
  by (auto simp: fetchMockPrice_def Let_def)

lemma fetchYahooPrice_symbol:
  "fetchYahooPrice env i s = Inr q \<Longrightarrow> symbol q = s"
  by (auto simp: fetchYahooPrice_def yahoo_try_def
      split: sum.splits axios_outcome.splits yahoo_data.splits option.splits if_splits)

lemma fetchPrice_symbol:
  "fst (fetchPrice env w s src) = Inr q \<Longrightarrow> symbol q = s"
  by (auto simp: fetchPrice_def Let_def
      dest: fetchMockPrice_symbol fetchYahooPrice_symbol split: if_splits)

section \<open>The mock price\<close>

lemma upper_char_not_lower: "\<not> is_lower (upper_char c)"
  by (auto simp: upper_char_def is_lower_def)

lemma toUpperCase_no_lower: "c \<in> set (toUpperCase s) \<Longrightarrow> \<not> is_lower c"
  by (auto simp: toUpperCase_def upper_char_not_lower)

lemma prototype_key_has_lower: "k \<in> set object_prototype_keys \<Longrightarrow> \<exists>c \<in> set k. is_lower c"
  by (auto simp: object_prototype_keys_def is_lower_def)

lemma toUpperCase_not_prototype_key: "toUpperCase s \<notin> set object_prototype_keys"
  using prototype_key_has_lower [of "toUpperCase s"] toUpperCase_no_lower [of _ s] by blast

lemma basePrices_values:
  assumes "map_of basePrices k = Some v"
  shows "v \<in> \<int> \<and> 0 < v"
proof -
  from assms have "(k, v) \<in> set basePrices" by (rule map_of_SomeD)
  then have "v \<in> {150, 200, 300, 2500, 3000, 400, 250, 30, 40, 350}"
    by (auto simp: basePrices_def)
  then show ?thesis by auto
qed

lemma mock_basePrice_upper:
  "mock_basePrice (toUpperCase s) =
     Some (case map_of basePrices (toUpperCase s) of
             Some v \<Rightarrow> v
           | None \<Rightarrow> 100 + 10 * of_nat (length (toUpperCase s)))"
  using basePrices_values [of "toUpperCase s"]
  by (auto simp: mock_basePrice_def basePrices_get_def toUpperCase_not_prototype_key
      split: option.splits)

lemma mock_base_integer:
  "\<exists>b > 0. (case map_of basePrices k of Some v \<Rightarrow> v | None \<Rightarrow> 100 + 10 * of_nat (length k))
      = (of_int b :: rat)"
proof (cases "map_of basePrices k")
  case None
  show ?thesis
    unfolding None by (intro exI [of _ "100 + 10 * int (length k)"]) simp
next
  case (Some v)
  with basePrices_values [OF Some] show ?thesis
    by (auto elim!: Ints_cases)
qed

lemma toFixed2_within:
  assumes "0 \<le> b" and "of_int (95 * b) \<le> 100 * x" and "100 * x < of_int (105 * b)"
  shows "of_int (95 * b) \<le> 100 * toFixed2 x \<and> 100 * toFixed2 x \<le> of_int (105 * b)"
proof (cases "\<bar>x\<bar> \<ge> 10 ^ 21")
  case True
  with assms show ?thesis by (simp add: toFixed2_def)
next
  case False
  have "(0::rat) \<le> of_int (95 * b)" using assms(1) by simp
  with assms(2) have "0 \<le> 100 * x" by linarith
  then have x0: "0 \<le> x" by simp
  have lo: "95 * b \<le> \<lfloor>x * 100 + 1 / 2\<rfloor>"
    using assms(2) by (simp add: le_floor_iff mult.commute)
  have "x * 100 + 1 / 2 < of_int (105 * b + 1)"
    using assms(3) by (simp add: mult.commute)
  then have "\<lfloor>x * 100 + 1 / 2\<rfloor> < 105 * b + 1"
    by (simp only: floor_less_iff)
  then have hi: "\<lfloor>x * 100 + 1 / 2\<rfloor> \<le> 105 * b" by simp
  have eq: "100 * toFixed2 x = of_int \<lfloor>x * 100 + 1 / 2\<rfloor>"
    using False x0 by (simp add: toFixed2_def)
  show ?thesis
    unfolding eq using lo hi by (simp only: of_int_le_iff)
qed

text \<open>Both routes pass the symbol in upper case. A key inherited from the prototype,
  which no upper-case string is, would give a price that is not a number.\<close>

lemma fetchMockPrice_inherited_key:
  "price (projr (fst (fetchMockPrice env i w ''constructor''))) = None"
  by (simp add: fetchMockPrice_def Let_def mock_basePrice_def basePrices_get_def
      basePrices_def object_prototype_keys_def)

section \<open>Parsing the symbols\<close>

lemma split_sep_Nil: "split_sep [] = [[]]"
  by (simp add: split_sep.simps)

lemma split_sep_sep:
  "is_sep c \<Longrightarrow> split_sep (c # cs) = [] # split_sep (dropWhile is_sep cs)"
  by (subst split_sep.simps) simp

lemma split_sep_head: "split_sep s = takeWhile (\<lambda>c. \<not> is_sep c) s # tl (split_sep s)"
  by (subst split_sep.simps, subst (2) split_sep.simps) (simp add: Let_def)

lemma split_sep_nonsep_tl:
  "\<not> is_sep c \<Longrightarrow> tl (split_sep (c # cs)) = tl (split_sep cs)"
  by (subst split_sep.simps, subst (2) split_sep.simps) (simp add: Let_def)

lemma split_each_head: "split_each s = takeWhile (\<lambda>c. \<not> is_sep c) s # tl (split_each s)"
  by (induction s) (auto split: list.splits)

lemma split_each_nonsep_tl:
  "\<not> is_sep c \<Longrightarrow> tl (split_each (c # cs)) = tl (split_each cs)"
  by (simp split: list.splits)

lemma split_sep_skip:
  "filter (\<lambda>x. x \<noteq> []) (split_sep (dropWhile is_sep cs)) = filter (\<lambda>x. x \<noteq> []) (split_sep cs)"
  by (cases cs) (simp_all add: split_sep_sep)

lemma split_tails:
  "filter (\<lambda>x. x \<noteq> []) (tl (split_sep s)) = filter (\<lambda>x. x \<noteq> []) (tl (split_each s))"
proof (induction s)
  case Nil
  show ?case by (simp add: split_sep_Nil)
next
  case (Cons c cs)
  show ?case
  proof (cases "is_sep c")
    case True
    have "filter (\<lambda>x. x \<noteq> []) (tl (split_sep (c # cs))) = filter (\<lambda>x. x \<noteq> []) (split_sep cs)"
      using True by (simp add: split_sep_sep split_sep_skip)
    also have "\<dots> = filter (\<lambda>x. x \<noteq> [])
        (takeWhile (\<lambda>c. \<not> is_sep c) cs # tl (split_sep cs))"
      using split_sep_head [of cs] by simp
    also have "\<dots> = filter (\<lambda>x. x \<noteq> [])
        (takeWhile (\<lambda>c. \<not> is_sep c) cs # tl (split_each cs))"
      using Cons.IH by simp
    also have "\<dots> = filter (\<lambda>x. x \<noteq> []) (split_each cs)"
      using split_each_head [of cs] by simp
    also have "\<dots> = filter (\<lambda>x. x \<noteq> []) (tl (split_each (c # cs)))"
      using True by simp
    finally show ?thesis .
  next
    case False
    show ?thesis
      unfolding split_sep_nonsep_tl [OF False] split_each_nonsep_tl [OF False]
      by (rule Cons.IH)
  qed
qed

lemma split_same_nonempty:
  "filter (\<lambda>x. x \<noteq> []) (split_sep s) = filter (\<lambda>x. x \<noteq> []) (split_each s)"
proof -
  have "filter (\<lambda>x. x \<noteq> []) (split_sep s) =
      filter (\<lambda>x. x \<noteq> []) (takeWhile (\<lambda>c. \<not> is_sep c) s # tl (split_sep s))"
    using split_sep_head [of s] by simp
  also have "\<dots> = filter (\<lambda>x. x \<noteq> []) (takeWhile (\<lambda>c. \<not> is_sep c) s # tl (split_each s))"
    using split_tails [of s] by simp
  also have "\<dots> = filter (\<lambda>x. x \<noteq> []) (split_each s)"
    using split_each_head [of s] by simp
  finally show ?thesis .
qed

lemma split_each_no_sep_all: "\<forall>p \<in> set (split_each s). \<forall>c \<in> set p. \<not> is_sep c"
  by (induction s) (auto split: list.splits)

lemma split_each_no_sep: "p \<in> set (split_each s) \<Longrightarrow> c \<in> set p \<Longrightarrow> \<not> is_sep c"
  using split_each_no_sep_all by blast

lemma split_sep_no_sep:
  assumes "p \<in> set (split_sep s)" and "c \<in> set p"
  shows "\<not> is_sep c"
proof -
  from assms have "p \<in> set (filter (\<lambda>x. x \<noteq> []) (split_sep s))" by auto
  then have "p \<in> set (split_each s)" by (simp add: split_same_nonempty)
  from this assms(2) show ?thesis by (rule split_each_no_sep)
qed

lemma trim_no_space: "\<forall>c \<in> set p. \<not> is_space c \<Longrightarrow> trim p = p"
proof -
  assume a: "\<forall>c \<in> set p. \<not> is_space c"
  have d: "dropWhile is_space q = q" if "\<forall>c \<in> set q. \<not> is_space c" for q
    using that by (cases q) simp_all
  from a show ?thesis by (simp add: trim_def d)
qed

lemma normalize_empty_iff:
  "\<forall>c \<in> set p. \<not> is_sep c \<Longrightarrow> (toUpperCase (trim p) = []) = (p = [])"
  by (simp add: trim_no_space is_sep_def toUpperCase_def)

lemma filter_normalized:
  "\<forall>p \<in> set ps. \<forall>c \<in> set p. \<not> is_sep c \<Longrightarrow>
     filter (\<lambda>x. x \<noteq> []) (map (\<lambda>x. toUpperCase (trim x)) ps) =
       map (\<lambda>x. toUpperCase (trim x)) (filter (\<lambda>x. x \<noteq> []) ps)"
  by (induction ps) (simp_all add: normalize_empty_iff)

lemma symbolList_of_spec: "symbolList_of s = spec_symbolList s"
proof -
  have "symbolList_of s =
      filter (\<lambda>x. x \<noteq> []) (map (\<lambda>x. toUpperCase (trim x)) (split_sep s))"
    by (simp add: symbolList_of_def)
  also have "\<dots> = map (\<lambda>x. toUpperCase (trim x)) (filter (\<lambda>x. x \<noteq> []) (split_sep s))"
    by (rule filter_normalized) (blast dest: split_sep_no_sep)
  also have "\<dots> = map (\<lambda>x. toUpperCase (trim x)) (filter (\<lambda>x. x \<noteq> []) (split_each s))"
    by (simp only: split_same_nonempty)
  also have "\<dots> = filter (\<lambda>x. x \<noteq> []) (map (\<lambda>x. toUpperCase (trim x)) (split_each s))"
    by (rule filter_normalized [symmetric]) (blast dest: split_each_no_sep)
  finally show ?thesis by (simp add: spec_symbolList_def)
qed

lemma symbolList_of_messy: "symbolList_of ''AAPL, , TSLA'' = [''AAPL'', ''TSLA'']"
  by code_simp

text \<open>A \<^verbatim>\<open>symbols\<close> parameter that is not a string: the handler throws before any fetch.\<close>

lemma prices_handler_not_string:
  assumes "query_symbols req = Some v" and "\<forall>s. v \<noteq> QString s"
  shows "prices_handler env req w = (Inl ''symbols.split is not a function'', w)"
  using assms by (cases v) (simp_all add: prices_handler_def)

section \<open>Claims\<close>

text \<open>
  C1 (as the code has it). A \<^verbatim>\<open>GET /prices\<close> request whose \<^verbatim>\<open>symbols\<close> parameter is a
  non-empty string is answered with status 200 and an aggregate in which \<^verbatim>\<open>total_requested\<close> is the number of symbols left
  after parsing, \<^verbatim>\<open>total_successful\<close> the length of \<^verbatim>\<open>prices\<close>, \<^verbatim>\<open>total_failed\<close> the
  length of \<^verbatim>\<open>errors\<close> (no entries when the field is left out), and the two counts add
  up to \<^verbatim>\<open>total_requested\<close>.
\<close>

theorem prices_totals:
  assumes "query_symbols req = Some (QString s)" and "s \<noteq> []"
  shows "\<exists>agg w'. prices_handler env req w = (Inr \<lparr>status = 200, body = AggregateBody agg\<rparr>, w')
     \<and> total_requested agg = length (symbolList_of s)
     \<and> total_successful agg = length (prices agg)
     \<and> total_failed agg = (case errors agg of None \<Rightarrow> 0 | Some es \<Rightarrow> length es)
     \<and> total_successful agg + total_failed agg = total_requested agg"
proof -
  define sl where "sl = symbolList_of s"
  define outs where "outs = fst (fetch_all env (or_default (query_source req) ''yahoo'') sl w)"
  have len: "length sl = length outs"
    by (simp add: outs_def fetch_all_length)
  show ?thesis
    using partition_lengths [OF len]
    by (simp add: prices_handler_parsed [OF assms] Let_def sl_def [symmetric] outs_def [symmetric] len)
qed

lemma symbolList_of_three: "symbolList_of ''AAPL,TSLA,MSFT'' = [''AAPL'', ''TSLA'', ''MSFT'']"
  by code_simp

theorem prices_totals_witness:
  "\<exists>agg w'. prices_handler env0 (request0 (Some ''AAPL,TSLA,MSFT'') (Some ''mock'')) world0
        = (Inr \<lparr>status = 200, body = AggregateBody agg\<rparr>, w')
     \<and> total_requested agg = 3
     \<and> total_successful agg = length (prices agg)
     \<and> total_failed agg = (case errors agg of None \<Rightarrow> 0 | Some es \<Rightarrow> length es)
     \<and> total_successful agg + total_failed agg = total_requested agg"
  using prices_totals [of "request0 (Some ''AAPL,TSLA,MSFT'') (Some ''mock'')"
      "''AAPL,TSLA,MSFT''" env0 world0]
  by (simp add: request0_def symbolList_of_three numeral_3_eq_3)

text \<open>C1 as stated fails: \<^verbatim>\<open>?symbols=AAPL&symbols=TSLA&source=mock\<close> has a non-empty
  \<^verbatim>\<open>symbols\<close> parameter, an array; line 93 throws and no aggregate is sent.\<close>

theorem prices_totals_counterexample:
  "prices_handler env0
     \<lparr>params_symbol = [], query_symbols = Some (QArray [QString ''AAPL'', QString ''TSLA'']),
      query_source = Some ''mock''\<rparr> world0
   = (Inl ''symbols.split is not a function'', world0)"
  by (simp add: prices_handler_def)

text \<open>
  C2. In a batch each symbol is classified on its own. The outcome of the \<open>i\<close>-th symbol
  is what \<^verbatim>\<open>fetchPrice\<close> returns for that symbol, whatever the other fetches return; the
  response always has status 200; \<^verbatim>\<open>prices\<close> holds the quotes of the fetches that
  succeeded and \<^verbatim>\<open>errors\<close> one line \<^verbatim>\<open>SYMBOL: message\<close> for each fetch that failed, both
  in dispatch order. When one fetch fails and another succeeds, both lists are
  populated.
\<close>

theorem prices_batch_independent:
  assumes "query_symbols req = Some (QString s)" and "s \<noteq> []"
    and "sl = symbolList_of s"
    and "src = or_default (query_source req) ''yahoo''"
    and "outs = fst (fetch_all env src sl w)"
  shows "\<exists>agg w'. prices_handler env req w = (Inr \<lparr>status = 200, body = AggregateBody agg\<rparr>, w')
     \<and> length outs = length sl
     \<and> (\<forall>i < length sl. outs ! i =
           fst (fetchPrice env
                  (w\<lparr>draws := draws w + (if toLowerCase src = ''yahoo'' then 0 else 2 * i),
                     fetches := fetches w @ take i sl\<rparr>) (sl ! i) src))
     \<and> prices agg = [QuoteV q. Inr q \<leftarrow> outs]
     \<and> (case errors agg of None \<Rightarrow> [] | Some es \<Rightarrow> es)
           = [error_line x m. (x, Inl m) \<leftarrow> zip sl outs]
     \<and> ((\<exists>m. Inl m \<in> set outs) \<and> (\<exists>q. Inr q \<in> set outs)
           \<longrightarrow> prices agg \<noteq> [] \<and> (\<exists>es. errors agg = Some es \<and> es \<noteq> []))"
proof -
  have len: "length sl = length outs"
    by (simp add: assms(5) fetch_all_length)
  have nth: "\<forall>i < length sl. outs ! i =
           fst (fetchPrice env
                  (w\<lparr>draws := draws w + (if toLowerCase src = ''yahoo'' then 0 else 2 * i),
                     fetches := fetches w @ take i sl\<rparr>) (sl ! i) src)"
    unfolding assms(5) using fetch_all_nth [of _ sl env src w] by blast
  define ps where "ps = [QuoteV q. Inr q \<leftarrow> outs]"
  define es where "es = [error_line x m. (x, Inl m) \<leftarrow> zip sl outs]"
  have mixed: "(\<exists>m. Inl m \<in> set outs) \<and> (\<exists>q. Inr q \<in> set outs) \<longrightarrow> ps \<noteq> [] \<and> es \<noteq> []"
    unfolding ps_def es_def
    using failures_nonempty [OF len] successes_nonempty [of _ outs] by blast
  have h: "prices_handler env req w =
      (Inr \<lparr>status = 200,
        body = AggregateBody
          \<lparr>success = (ps \<noteq> []), prices = ps,
           errors = (if es = [] then None else Some es),
           total_requested = length sl,
           total_successful = length ps,
           total_failed = length es\<rparr>\<rparr>,
       snd (fetch_all env src sl w))"
    by (simp add: prices_handler_parsed [OF assms(1,2)] Let_def ps_def es_def
        assms(3) [symmetric] assms(4) [symmetric] assms(5) [symmetric])
  show ?thesis
    unfolding h ps_def [symmetric] es_def [symmetric]
    using len nth mixed by (cases "es = []") simp_all
qed

lemma symbolList_of_two: "symbolList_of ''aapl tsla'' = [''AAPL'', ''TSLA'']"
  by code_simp

lemma fetch_all_mixed:
  "fst (fetch_all env0 ''yahoo'' [''AAPL'', ''TSLA''] world0) =
     [Inl ''Yahoo API error: timeout of 5000ms exceeded'', Inr quote_tsla]"
  by code_simp

theorem prices_batch_independent_witness:
  "\<exists>agg w'. prices_handler env0 (request0 (Some ''aapl tsla'') None) world0
        = (Inr \<lparr>status = 200, body = AggregateBody agg\<rparr>, w')
     \<and> prices agg = [QuoteV quote_tsla]
     \<and> errors agg = Some [''AAPL: Yahoo API error: timeout of 5000ms exceeded'']"
proof -
  have a: "query_symbols (request0 (Some ''aapl tsla'') None) = Some (QString ''aapl tsla'')"
    and b: "''aapl tsla'' \<noteq> []"
    and c: "[''AAPL'', ''TSLA''] = symbolList_of ''aapl tsla''"
    and d: "''yahoo'' = or_default (query_source (request0 (Some ''aapl tsla'') None)) ''yahoo''"
    by (simp_all add: request0_def symbolList_of_two or_default_def)
  from prices_batch_independent [OF a b c d fetch_all_mixed [symmetric]]
  obtain agg w' where
    h: "prices_handler env0 (request0 (Some ''aapl tsla'') None) world0
        = (Inr \<lparr>status = 200, body = AggregateBody agg\<rparr>, w')"
    and p: "prices agg = [QuoteV q. Inr q \<leftarrow>
        [Inl ''Yahoo API error: timeout of 5000ms exceeded'', Inr quote_tsla]]"
    and e: "(case errors agg of None \<Rightarrow> [] | Some es \<Rightarrow> es) =
        [error_line x m. (x, Inl m) \<leftarrow> zip [''AAPL'', ''TSLA'']
          [Inl ''Yahoo API error: timeout of 5000ms exceeded'', Inr quote_tsla]]"
    by blast
  from e have "errors agg = Some [''AAPL: Yahoo API error: timeout of 5000ms exceeded'']"
    by (cases "errors agg") (simp_all add: error_line_def)
  with h p show ?thesis by simp
qed

text \<open>
  C5 (as the code has it). Fragments that are empty after trimming are dropped before
  any fetch, and nothing else is: \<^verbatim>\<open>fetchPrice\<close> is called once for each symbol of the
  parsed list, in order, a symbol that occurs twice being fetched twice.
\<close>

theorem prices_dispatch_per_occurrence:
  assumes "query_symbols req = Some (QString s)" and "s \<noteq> []"
  shows "fetches (snd (prices_handler env req w)) = fetches w @ symbolList_of s
     \<and> [] \<notin> set (symbolList_of s)"
  by (simp add: prices_handler_parsed [OF assms] Let_def fetch_all_world symbolList_of_nonempty)

lemma symbolList_of_dup: "symbolList_of ''AAPL,AAPL'' = [''AAPL'', ''AAPL'']"
  by code_simp

theorem prices_dispatch_per_occurrence_witness:
  "fetches (snd (prices_handler env0 (request0 (Some ''AAPL,AAPL'') (Some ''mock'')) world0))
     = [''AAPL'', ''AAPL'']"
  using prices_dispatch_per_occurrence [of "request0 (Some ''AAPL,AAPL'') (Some ''mock'')"
      "''AAPL,AAPL''" env0 world0]
  by (simp add: request0_def symbolList_of_dup world0_def)

text \<open>C5 as stated fails: \<^verbatim>\<open>?symbols=AAPL,AAPL\<close> dispatches two fetches of \<^verbatim>\<open>AAPL\<close>.\<close>

theorem prices_duplicates_counterexample:
  "\<not> distinct (fetches (snd (prices_handler env0 (request0 (Some ''AAPL,AAPL'') (Some ''mock''))
      world0)))"
  by code_simp

text \<open>
  C6 (as the code has it). A 200 response of \<^verbatim>\<open>GET /prices\<close> has an \<^verbatim>\<open>errors\<close> field exactly
  when a fetch failed, and the field is then the non-empty list of the failure lines;
  when every symbol succeeds the field is \<^verbatim>\<open>undefined\<close> and left out of the body.
\<close>

theorem prices_errors_field:
  assumes "query_symbols req = Some (QString s)" and "s \<noteq> []"
    and "sl = symbolList_of s"
    and "outs = fst (fetch_all env (or_default (query_source req) ''yahoo'') sl w)"
    and "es = [error_line x m. (x, Inl m) \<leftarrow> zip sl outs]"
  shows "errors_field (fst (prices_handler env req w)) = (if es = [] then None else Some es)
     \<and> (es = [] \<longleftrightarrow> (\<forall>r \<in> set outs. \<exists>q. r = Inr q))"
proof -
  have len: "length sl = length outs"
    by (simp add: assms(4) fetch_all_length)
  have e: "(es = []) = (\<forall>r \<in> set outs. \<exists>q. r = Inr q)"
    unfolding assms(5) by (rule failures_empty [OF len])
  have h: "errors_field (fst (prices_handler env req w)) = (if es = [] then None else Some es)"
    unfolding assms(5)
    by (simp add: prices_handler_parsed [OF assms(1,2)] Let_def errors_field_def
        assms(3) [symmetric] assms(4) [symmetric])
  from h e show ?thesis by (rule conjI)
qed

theorem prices_errors_field_witness:
  "errors_field (fst (prices_handler env0 (request0 (Some ''aapl tsla'') None) world0))
     = Some [''AAPL: Yahoo API error: timeout of 5000ms exceeded'']"
proof -
  have a: "query_symbols (request0 (Some ''aapl tsla'') None) = Some (QString ''aapl tsla'')"
    and b: "''aapl tsla'' \<noteq> []"
    and c: "[''AAPL'', ''TSLA''] = symbolList_of ''aapl tsla''"
    and d: "[Inl ''Yahoo API error: timeout of 5000ms exceeded'', Inr quote_tsla] =
      fst (fetch_all env0 (or_default (query_source (request0 (Some ''aapl tsla'') None)) ''yahoo'')
        [''AAPL'', ''TSLA''] world0)"
    by (simp_all add: request0_def symbolList_of_two or_default_def fetch_all_mixed
        del: fetch_all.simps)
  from prices_errors_field [OF a b c d refl] show ?thesis
    by (simp add: error_line_def)
qed

text \<open>C6 as stated fails: with \<^verbatim>\<open>?symbols=AAPL&source=mock\<close> every symbol succeeds and the
  body has no \<^verbatim>\<open>errors\<close> field.\<close>

theorem prices_errors_field_counterexample:
  "errors_field (fst (prices_handler env0 (request0 (Some ''AAPL'') (Some ''mock'')) world0)) = None"
  by code_simp

text \<open>
  C7. A \<^verbatim>\<open>GET /prices\<close> request without a \<^verbatim>\<open>symbols\<close> parameter is answered with status
  400 and the error code \<^verbatim>\<open>MISSING_SYMBOLS\<close>, and no fetch is dispatched.
\<close>

theorem prices_missing_symbols:
  assumes "query_symbols req = None"
  shows "prices_handler env req w =
     (Inr \<lparr>status = 400, body = ErrorBody ''MISSING_SYMBOLS'' missing_symbols_message\<rparr>, w)
     \<and> fetches (snd (prices_handler env req w)) = fetches w"
  using assms by (simp add: prices_handler_def)

theorem prices_missing_symbols_witness:
  "prices_handler env0 (request0 None (Some ''mock'')) world0 =
     (Inr \<lparr>status = 400, body = ErrorBody ''MISSING_SYMBOLS'' missing_symbols_message\<rparr>,
      world0)
   \<and> fetches (snd (prices_handler env0 (request0 None (Some ''mock'')) world0)) = []"
  using prices_missing_symbols [of "request0 None (Some ''mock'')" env0 world0]
  by (simp add: request0_def world0_def)

text \<open>
  C8. \<^verbatim>\<open>GET /price/:symbol\<close> calls \<^verbatim>\<open>fetchPrice\<close> once, with the symbol in upper case. When
  the fetch succeeds the response is the quote, with status 200 and that symbol; when
  it fails the response has status 400 and the body
  \<^verbatim>\<open>{ error: 'PRICE_FETCH_FAILED', message: ... }\<close>.
\<close>

theorem price_single:
  "\<exists>resp w'. price_handler env req w = (resp, w')
     \<and> fetches w' = fetches w @ [toUpperCase (params_symbol req)]
     \<and> (case fst (fetchPrice env w (toUpperCase (params_symbol req))
                     (or_default (query_source req) ''yahoo'')) of
           Inr q \<Rightarrow> resp = \<lparr>status = 200, body = QuoteBody q\<rparr>
                     \<and> symbol q = toUpperCase (params_symbol req)
         | Inl m \<Rightarrow> status resp = 400
                     \<and> body resp = ErrorBody ''PRICE_FETCH_FAILED''
                          (''Failed to fetch price for '' @ toUpperCase (params_symbol req)
                             @ '': '' @ m))"
proof -
  define s where "s = toUpperCase (params_symbol req)"
  define src where "src = or_default (query_source req) ''yahoo''"
  obtain r w1 where f: "fetchPrice env w s src = (r, w1)"
    by (cases "fetchPrice env w s src")
  have w1: "fetches w1 = fetches w @ [s]"
    using fetchPrice_world [of env w s src] f by simp
  show ?thesis
  proof (cases r)
    case (Inl m)
    with f w1 show ?thesis
      by (simp add: price_handler_def Let_def s_def [symmetric] src_def [symmetric])
  next
    case (Inr q)
    with f have "symbol q = s" using fetchPrice_symbol [of env w s src q] by simp
    with Inr f w1 show ?thesis
      by (simp add: price_handler_def Let_def s_def [symmetric] src_def [symmetric])
  qed
qed

text \<open>
  C9. \<^verbatim>\<open>GET /groups\<close> answers every request, in every world, with the same body, the
  static table of groups, and with status 200.
\<close>

theorem groups_deterministic:
  "fst (groups_handler env req w) = fst (groups_handler env' req' w')
     \<and> status (fst (groups_handler env req w)) = 200
     \<and> body (fst (groups_handler env req w)) = GroupsBody groups
     \<and> snd (groups_handler env req w) = w"
  by (simp add: groups_handler_def)

text \<open>
  C10. For a source whose lower-case form is neither \<^verbatim>\<open>yahoo\<close> nor \<^verbatim>\<open>mock\<close>,
  \<^verbatim>\<open>fetchPrice\<close> is the mock generator and does not fail, so a single-price request with
  such a source (a non-empty one: the empty string is falsy and gives the default) is
  answered with status 200. A request without a source is handled as one with the
  source \<^verbatim>\<open>yahoo\<close>.
\<close>

theorem fetchPrice_unknown_source:
  assumes "toLowerCase src \<noteq> ''yahoo''" and "toLowerCase src \<noteq> ''mock''"
  shows "fetchPrice env w s src =
       fetchMockPrice env (length (fetches w)) (w\<lparr>fetches := fetches w @ [s]\<rparr>) s
     \<and> (\<exists>q. fst (fetchPrice env w s src) = Inr q)
     \<and> (src \<noteq> [] \<longrightarrow>
          status (fst (price_handler env (req\<lparr>query_source := Some src\<rparr>) w)) = 200)
     \<and> price_handler env (req\<lparr>query_source := None\<rparr>) w
          = price_handler env (req\<lparr>query_source := Some ''yahoo''\<rparr>) w
     \<and> prices_handler env (req\<lparr>query_source := None\<rparr>) w
          = prices_handler env (req\<lparr>query_source := Some ''yahoo''\<rparr>) w"
proof -
  have a: "fetchPrice env w s' src =
       fetchMockPrice env (length (fetches w)) (w\<lparr>fetches := fetches w @ [s']\<rparr>) s'" for s'
    using assms by (simp add: fetchPrice_def Let_def)
  have b: "\<exists>q. fst (fetchPrice env w s' src) = Inr q" for s'
    unfolding a by (rule fetchMockPrice_Inr)
  have c: "src \<noteq> [] \<longrightarrow>
          status (fst (price_handler env (req\<lparr>query_source := Some src\<rparr>) w)) = 200"
  proof
    assume ne: "src \<noteq> []"
    obtain q where q: "fst (fetchPrice env w (toUpperCase (params_symbol req)) src) = Inr q"
      using b by blast
    then show "status (fst (price_handler env (req\<lparr>query_source := Some src\<rparr>) w)) = 200"
      using ne
      by (cases "fetchPrice env w (toUpperCase (params_symbol req)) src")
        (simp add: price_handler_def Let_def or_default_def)
  qed
  have d: "price_handler env (req\<lparr>query_source := None\<rparr>) w
          = price_handler env (req\<lparr>query_source := Some ''yahoo''\<rparr>) w"
    by (simp add: price_handler_def or_default_def)
  have e: "prices_handler env (req\<lparr>query_source := None\<rparr>) w
          = prices_handler env (req\<lparr>query_source := Some ''yahoo''\<rparr>) w"
    by (simp add: prices_handler_def or_default_def)
  from a b c d e show ?thesis by blast
qed

lemma toLowerCase_nasdaq: "toLowerCase ''NASDAQ'' = ''nasdaq''"
  by code_simp

theorem fetchPrice_unknown_source_witness:
  "(\<exists>q. fst (fetchPrice env0 world0 ''AAPL'' ''NASDAQ'') = Inr q)
     \<and> status (fst (price_handler env0 (request0 None (Some ''NASDAQ'')) world0)) = 200"
proof -
  have a: "toLowerCase ''NASDAQ'' \<noteq> ''yahoo''" and b: "toLowerCase ''NASDAQ'' \<noteq> ''mock''"
    by (simp_all add: toLowerCase_nasdaq)
  note t = fetchPrice_unknown_source [OF a b, of env0 world0 "''AAPL''" "request0 None None"]
  from t have c: "\<exists>q. fst (fetchPrice env0 world0 ''AAPL'' ''NASDAQ'') = Inr q"
    by blast
  from t have "''NASDAQ'' \<noteq> [] \<longrightarrow> status (fst (price_handler env0
           ((request0 None None)\<lparr>query_source := Some ''NASDAQ''\<rparr>) world0)) = 200"
    by blast
  then have "status (fst (price_handler env0 (request0 None (Some ''NASDAQ'')) world0)) = 200"
    by (simp add: request0_def)
  with c show ?thesis by (rule conjI)
qed

text \<open>
  C3. The mock generator returns a quote for every symbol. For a symbol as the routes
  pass it (in upper case) the base price is the entry of the table, or
  \<open>100 + 10 \<times> length\<close> when the table has none, and when \<^verbatim>\<open>Math.random()\<close> returns a
  number in \<open>[0, 1)\<close> the price of the quote, rounded to two decimals, is within 5% of
  the base price.
\<close>

theorem mock_price_within_5_percent:
  "(\<exists>q w'. fetchMockPrice env i w symb = (Inr q, w'))
   \<and> (\<exists>q w' base. fetchMockPrice env i w (toUpperCase s) = (Inr q, w')
     \<and> mock_basePrice (toUpperCase s) = Some base
     \<and> base = (case map_of basePrices (toUpperCase s) of
                 Some v \<Rightarrow> v
               | None \<Rightarrow> 100 + 10 * of_nat (length (toUpperCase s)))
     \<and> (0 \<le> random env (draws w) \<and> random env (draws w) < 1 \<longrightarrow>
          (\<exists>p. price q = Some p \<and> \<bar>p - base\<bar> \<le> base * 5 / 100)))"
proof -
  define k where "k = toUpperCase s"
  define base :: rat where
    "base = (case map_of basePrices k of Some v \<Rightarrow> v | None \<Rightarrow> 100 + 10 * of_nat (length k))"
  define r where "r = random env (draws w)"
  define x where "x = base * (1 + (r - 1 / 2) * (1 / 10))"
  have mb: "mock_basePrice k = Some base"
    unfolding k_def base_def by (rule mock_basePrice_upper)
  obtain b where b: "0 < b" "base = of_int b"
    using mock_base_integer [of k] unfolding base_def by blast
  have pq: "price (projr (fst (fetchMockPrice env i w k))) = Some (toFixed2 x)"
    by (simp add: fetchMockPrice_def Let_def mb x_def r_def)
  have ex: "\<exists>q w'. fetchMockPrice env i w k' = (Inr q, w')" for k'
    by (simp add: fetchMockPrice_def Let_def)
  have bound: "\<bar>toFixed2 x - base\<bar> \<le> base * 5 / 100" if r: "0 \<le> r" "r < 1"
  proof -
    have x100: "100 * x = base * (95 + 10 * r)"
      by (simp add: x_def field_simps)
    have bpos: "0 < base" using b by simp
    have lo: "of_int (95 * b) \<le> 100 * x"
      unfolding x100 using r(1) bpos b(2) by (simp add: algebra_simps)
    have "base * (95 + 10 * r) < base * 105"
      using r(2) bpos by (simp only: mult_less_cancel_left_pos)
    then have hi: "100 * x < of_int (105 * b)"
      unfolding x100 using b(2) by (simp add: algebra_simps)
    from toFixed2_within [OF _ lo hi] b(1)
    have "95 * base \<le> 100 * toFixed2 x" "100 * toFixed2 x \<le> 105 * base"
      by (simp_all add: b(2))
    then show ?thesis by linarith
  qed
  from ex obtain q w' where f: "fetchMockPrice env i w k = (Inr q, w')" by blast
  with pq have "price q = Some (toFixed2 x)" by simp
  with f mb bound have "\<exists>q w' base'. fetchMockPrice env i w k = (Inr q, w')
     \<and> mock_basePrice k = Some base' \<and> base' = base
     \<and> (0 \<le> r \<and> r < 1 \<longrightarrow> (\<exists>p. price q = Some p \<and> \<bar>p - base'\<bar> \<le> base' * 5 / 100))"
    by blast
  with ex [of symb] show ?thesis
    unfolding k_def [symmetric] r_def [symmetric] base_def [symmetric] by (rule conjI)
qed

lemma toUpperCase_aapl: "toUpperCase ''aapl'' = ''AAPL''"
  by code_simp

theorem mock_price_within_5_percent_witness:
  "\<exists>q w'. fetchMockPrice env0 0 world0 (toUpperCase ''aapl'') = (Inr q, w')
     \<and> (\<exists>p. price q = Some p \<and> \<bar>p - 150\<bar> \<le> 150 * 5 / 100)"
proof -
  have r: "0 \<le> random env0 (draws world0) \<and> random env0 (draws world0) < 1"
    by (simp add: env0_def)
  have b: "(case map_of basePrices (toUpperCase ''aapl'') of
              Some v \<Rightarrow> v
            | None \<Rightarrow> 100 + 10 * of_nat (length (toUpperCase ''aapl''))) = (150 :: rat)"
    by (simp add: toUpperCase_aapl basePrices_def)
  from mock_price_within_5_percent [of env0 0 world0 "''AAPL''" "''aapl''"] r
  show ?thesis unfolding b by blast
qed

text \<open>
  C4. The list that line 93 computes from a \<^verbatim>\<open>symbols\<close> string is the one the
  specification describes: split at commas and whitespace, trim, put in upper case, drop
  the empty fragments. \<^verbatim>\<open>AAPL, , TSLA\<close> gives the two symbols \<^verbatim>\<open>AAPL\<close> and \<^verbatim>\<open>TSLA\<close>, and the
  handler fetches the symbols of that list.
\<close>

theorem prices_symbol_parsing:
  "symbolList_of s = spec_symbolList s
   \<and> symbolList_of ''AAPL, , TSLA'' = [''AAPL'', ''TSLA'']
   \<and> (query_symbols req = Some (QString s) \<and> s \<noteq> [] \<longrightarrow>
        fetches (snd (prices_handler env req w)) = fetches w @ spec_symbolList s)"
proof -
  have "fetches (snd (prices_handler env req w)) = fetches w @ spec_symbolList s"
    if "query_symbols req = Some (QString s)" and "s \<noteq> []"
    by (simp add: prices_handler_parsed [OF that] Let_def fetch_all_world symbolList_of_spec)
  then show ?thesis
    using symbolList_of_spec [of s] symbolList_of_messy by blast
qed

theorem prices_symbol_parsing_witness:
  "spec_symbolList ''AAPL, , TSLA'' = [''AAPL'', ''TSLA'']
   \<and> fetches (snd (prices_handler env0 (request0 (Some ''AAPL, , TSLA'') (Some ''mock'')) world0))
       = [''AAPL'', ''TSLA'']"
proof -
  note t = prices_symbol_parsing [of "''AAPL, , TSLA''"
      "request0 (Some ''AAPL, , TSLA'') (Some ''mock'')" env0 world0]
  from t have "symbolList_of ''AAPL, , TSLA'' = spec_symbolList ''AAPL, , TSLA''"
    and "symbolList_of ''AAPL, , TSLA'' = [''AAPL'', ''TSLA'']"
    by blast+
  then have a: "spec_symbolList ''AAPL, , TSLA'' = [''AAPL'', ''TSLA'']"
    by (rule trans [OF sym])
  have "query_symbols (request0 (Some ''AAPL, , TSLA'') (Some ''mock'')) = Some (QString ''AAPL, , TSLA'')
      \<and> ''AAPL, , TSLA'' \<noteq> []"
    by (simp add: request0_def)
  with t have "fetches (snd (prices_handler env0
      (request0 (Some ''AAPL, , TSLA'') (Some ''mock'')) world0))
      = fetches world0 @ spec_symbolList ''AAPL, , TSLA''"
    by blast
  with a show ?thesis by (simp add: world0_def)
qed

end
